theory Spec2Isabelle
  imports Main
begin

section \<open>JavaScript values used by the user controller\<close>

text \<open>
  The handlers of \<^verbatim>\<open>user.controller.js\<close> are modelled as functions from the
  account store and the request to a result and the new store. A \<^verbatim>\<open>throw\<close> is the
  left injection of the result, a sent response the right one. A request field that may be
  \<^verbatim>\<open>undefined\<close> is a \<open>string option\<close>, with \<open>None\<close> for \<^verbatim>\<open>undefined\<close>:
  the model covers requests whose body fields and cookies are strings or absent.
  Strings are lists of 8-bit characters, read as the code points U+0000 to U+00FF.
\<close>

datatype error =
    ApiError nat string
  | TypeError string
  | StoreError string

datatype json =
    JUndefined
  | JNull
  | JStr string
  | JId nat
  | JObj "(string \<times> json) list"

text \<open>\<^verbatim>\<open>!v\<close> is false exactly for a non-empty string, among the values modelled.\<close>

definition truthy :: "string option \<Rightarrow> bool" where
  "truthy v = (case v of None \<Rightarrow> False | Some s \<Rightarrow> s \<noteq> [])"

text \<open>\<^verbatim>\<open>a || b\<close> on values that are strings or \<^verbatim>\<open>undefined\<close>.\<close>

definition js_or :: "string option \<Rightarrow> string option \<Rightarrow> string option" where
  "js_or a b = (if truthy a then a else b)"

text \<open>
  \<^verbatim>\<open>String.prototype.trim\<close>: the white space and line terminators of ECMAScript that
  lie below U+0100 are TAB, LF, VT, FF, CR, SP and NBSP.
\<close>

definition is_white_space :: "char \<Rightarrow> bool" where
  "is_white_space c = (of_char c \<in> set [9, 10, 11, 12, 13, 32, 160 :: nat])"

definition trim :: "string \<Rightarrow> string" where
  "trim s = rev (dropWhile is_white_space (rev (dropWhile is_white_space s)))"

text \<open>
  \<^verbatim>\<open>String.prototype.toLowerCase\<close> below U+0100: A to Z, and U+00C0 to U+00DE
  without the multiplication sign U+00D7, move up by 32.
\<close>

definition toLowerCase_char :: "char \<Rightarrow> char" where
  "toLowerCase_char c =
     (let n = (of_char c :: nat) in
      if (65 \<le> n \<and> n \<le> 90) \<or> (192 \<le> n \<and> n \<le> 222 \<and> n \<noteq> 215)
      then char_of (n + 32) else c)"

definition toLowerCase :: "string \<Rightarrow> string" where
  "toLowerCase s = map toLowerCase_char s"

section \<open>Requests and responses\<close>

record body =
  b_fullName :: "string option"
  b_email :: "string option"
  b_username :: "string option"
  b_password :: "string option"
  b_refreshToken :: "string option"

record uploaded_file =
  f_path :: "string option"

record files =
  f_avatar :: "uploaded_file list option"
  f_coverImage :: "uploaded_file list option"

record cookies =
  c_refreshToken :: "string option"

record account =
  u_id :: nat
  u_username :: string
  u_email :: string
  u_fullName :: string
  u_password :: string
  u_avatar :: string
  u_coverImage :: string
  u_refreshToken :: "string option"

record request =
  req_body :: body
  req_files :: "files option"
  req_cookies :: cookies
  req_user :: "account option"

text \<open>\<^verbatim>\<open>new ApiResponse(statusCode, data, message)\<close>, with the arguments of the call.\<close>

datatype api_response = ApiResponse nat json string

text \<open>
  What the handler did to \<^verbatim>\<open>res\<close>: \<^verbatim>\<open>res.status(n)\<close>, each
  \<^verbatim>\<open>.cookie(name, value, options)\<close> and \<^verbatim>\<open>.clearCookie(name, options)\<close> in call
  order, and the argument of \<^verbatim>\<open>.json(...)\<close>.
\<close>

record response =
  res_status :: nat
  res_cookie :: "(string \<times> json \<times> (string \<times> bool) list) list"
  res_clearCookie :: "(string \<times> (string \<times> bool) list) list"
  res_json :: api_response

definition res_data :: "response \<Rightarrow> json" where
  "res_data res = (case res_json res of ApiResponse _ d _ \<Rightarrow> d)"

type_synonym result = "(error + response) \<times> account list"

section \<open>Collaborators that are not part of the controller\<close>

text \<open>
  The media upload, the token methods of the user model, the password comparison and the
  token verifier are parameters of every handler.
  \<^item> \<open>uploadOnCloudinary p\<close> is the \<^verbatim>\<open>url\<close> of the upload response, \<open>None\<close> when the
    upload yields \<^verbatim>\<open>null\<close>.
  \<^item> \<open>hashPassword\<close> is what the model stores for a password.
  \<^item> \<open>jwt_verify t\<close> is \<open>Inl m\<close> when \<^verbatim>\<open>jwt.verify\<close> throws an error with message
    \<open>m\<close>, and \<open>Inr i\<close> when it returns a payload whose \<^verbatim>\<open>_id\<close> is \<open>i\<close>. The
    controller never imports \<^verbatim>\<open>jwt\<close>; the file as it stands is the instance that
    always throws.
  \<^item> \<open>looseEqTrue s\<close> is JavaScript's \<^verbatim>\<open>true == s\<close> for a string \<open>s\<close>.
  \<^item> \<open>lookupAlsoMatches q s\<close> tells whether the lookup of the user model takes the
    queried username \<open>q\<close> for the stored username \<open>s\<close> although the two strings
    differ, as a schema that normalises queried usernames would. The schema is not among
    the sources, and the specification does not say how the lookup compares.
\<close>

record env =
  uploadOnCloudinary :: "string option \<Rightarrow> string option"
  hashPassword :: "string \<Rightarrow> string"
  generateAccessToken :: "account \<Rightarrow> string"
  generateRefreshToken :: "account \<Rightarrow> string"
  isPasswordCorrect :: "account \<Rightarrow> string option \<Rightarrow> bool"
  jwt_verify :: "string option \<Rightarrow> string + nat option"
  looseEqTrue :: "string \<Rightarrow> bool"
  lookupAlsoMatches :: "string \<Rightarrow> string \<Rightarrow> bool"

section \<open>The account store\<close>

text \<open>
  Modelled from the spec: the user model \<^verbatim>\<open>models/user.model.js\<close> is not among the
  sources. The store is the list of accounts in insertion order, with the operations the
  spec lists: find-by-id, find-by-username-or-email, create, update-by-id and save.
  Timestamps are left out. An identifier that is \<^verbatim>\<open>undefined\<close> in a query matches no
  account, since every stored account has a username, an email and an id. The lookup by
  username or email finds an account whose username or email is the queried string; which
  further usernames it takes for the queried one is the parameter \<open>lookupAlsoMatches\<close>.
\<close>

definition findById :: "account list \<Rightarrow> nat option \<Rightarrow> account option" where
  "findById store i = find (\<lambda>a. i = Some (u_id a)) store"

definition username_matches :: "env \<Rightarrow> string option \<Rightarrow> account \<Rightarrow> bool" where
  "username_matches env username a =
     (case username of
        None \<Rightarrow> False
      | Some u \<Rightarrow> u = u_username a \<or> lookupAlsoMatches env u (u_username a))"

definition findOne ::
  "env \<Rightarrow> account list \<Rightarrow> string option \<Rightarrow> string option \<Rightarrow> account option" where
  "findOne env store username email =
     find (\<lambda>a. username_matches env username a \<or> email = Some (u_email a)) store"

definition fresh_id :: "account list \<Rightarrow> nat" where
  "fresh_id store = Suc (fold max (map u_id store) 0)"

text \<open>
  Modelled from the spec: \<^verbatim>\<open>User.create\<close>. Full name, email and password are
  required; username and email are unique by the store's index, which rejects the write;
  the password is stored hashed; the new account has no refresh token.
\<close>

definition create ::
  "env \<Rightarrow> account list \<Rightarrow> string option \<Rightarrow> string \<Rightarrow> string \<Rightarrow> string option \<Rightarrow>
   string option \<Rightarrow> string \<Rightarrow> error + (account \<times> account list)" where
  "create env store fullName avatar coverImage email password username =
     (case (fullName, email, password) of
        (Some fn, Some em, Some pw) \<Rightarrow>
          if list_ex (\<lambda>a. u_username a = username \<or> u_email a = em) store
          then Inl (StoreError ''duplicate key'')
          else
            (let user = \<lparr> u_id = fresh_id store, u_username = username, u_email = em,
                          u_fullName = fn, u_password = hashPassword env pw,
                          u_avatar = avatar, u_coverImage = coverImage,
                          u_refreshToken = None \<rparr>
             in Inr (user, store @ [user]))
      | _ \<Rightarrow> Inl (StoreError ''validation failed''))"

text \<open>\<^verbatim>\<open>user.save({ validateBeforeSave: false })\<close>: the stored account with the id of
  \<open>user\<close> becomes \<open>user\<close>.\<close>

definition save :: "account list \<Rightarrow> account \<Rightarrow> account list" where
  "save store user = map (\<lambda>a. if u_id a = u_id user then user else a) store"

text \<open>\<^verbatim>\<open>User.findByIdAndUpdate(id, { $unset: { refreshToken: 1 } }, { new: true })\<close>.\<close>

definition findByIdAndUpdate_unset_refreshToken :: "account list \<Rightarrow> nat \<Rightarrow> account list" where
  "findByIdAndUpdate_unset_refreshToken store i =
     map (\<lambda>a. if u_id a = i then a\<lparr> u_refreshToken := None \<rparr> else a) store"

text \<open>The document of an account, as it is serialised: an unset refresh token is no field.\<close>

definition toObject :: "account \<Rightarrow> (string \<times> json) list" where
  "toObject a =
     [(''_id'', JId (u_id a)), (''username'', JStr (u_username a)),
      (''email'', JStr (u_email a)), (''fullName'', JStr (u_fullName a)),
      (''avatar'', JStr (u_avatar a)), (''coverImage'', JStr (u_coverImage a)),
      (''password'', JStr (u_password a))]
     @ (case u_refreshToken a of None \<Rightarrow> [] | Some t \<Rightarrow> [(''refreshToken'', JStr t)])"

text \<open>\<^verbatim>\<open>.select("-password -refreshToken")\<close> on a query result: the excluded fields
  are dropped from the document; \<^verbatim>\<open>null\<close> stays \<^verbatim>\<open>null\<close>.\<close>

definition select_minus :: "string list \<Rightarrow> account option \<Rightarrow> (string \<times> json) list option" where
  "select_minus excluded r =
     map_option (\<lambda>a. filter (\<lambda>kv. fst kv \<notin> set excluded) (toObject a)) r"

definition has_field :: "string \<Rightarrow> json \<Rightarrow> bool" where
  "has_field k j = (case j of JObj kvs \<Rightarrow> k \<in> set (map fst kvs) | _ \<Rightarrow> False)"

section \<open>The handlers\<close>

subsection \<open>generateAccessAndRefreshTokens\<close>

text \<open>
  The body is one \<^verbatim>\<open>try\<close> block: when \<^verbatim>\<open>findById\<close> yields \<^verbatim>\<open>null\<close>, the
  method call on it throws, and the \<^verbatim>\<open>catch\<close> turns that into the 500 error.
\<close>

definition generateAccessAndRefreshTokens ::
  "env \<Rightarrow> account list \<Rightarrow> nat \<Rightarrow> (error + (string \<times> string)) \<times> account list" where
  "generateAccessAndRefreshTokens env store userId =
     (case findById store (Some userId) of
        None \<Rightarrow>
          (Inl (ApiError 500 ''Something went wrong while generating refresh and access token''),
           store)
      | Some user \<Rightarrow>
          (let accessToken = generateAccessToken env user;
               refreshToken = generateRefreshToken env user
           in (Inr (accessToken, refreshToken),
               save store (user\<lparr> u_refreshToken := Some refreshToken \<rparr>))))"

subsection \<open>registerUser\<close>

text \<open>The predicate of \<^verbatim>\<open>.some((field) => field?.trim() === "")\<close>.\<close>

definition blank_field :: "string option \<Rightarrow> bool" where
  "blank_field field = (case field of None \<Rightarrow> False | Some s \<Rightarrow> trim s = [])"

text \<open>
  \<^verbatim>\<open>req.files?.avatar[0]?.path\<close>: the first \<^verbatim>\<open>?.\<close> guards \<^verbatim>\<open>req.files\<close> only, so
  a files object without an \<^verbatim>\<open>avatar\<close> entry makes the index expression throw.
\<close>

definition avatarLocalPath_of :: "files option \<Rightarrow> error + string option" where
  "avatarLocalPath_of fs =
     (case fs of
        None \<Rightarrow> Inr None
      | Some f \<Rightarrow>
          (case f_avatar f of
             None \<Rightarrow> Inl (TypeError ''Cannot read properties of undefined (reading '0')'')
           | Some [] \<Rightarrow> Inr None
           | Some (x # _) \<Rightarrow> Inr (f_path x)))"

text \<open>
  \<^verbatim>\<open>coverImageLocalPath\<close> is assigned only when \<^verbatim>\<open>req.files\<close> exists and its
  \<^verbatim>\<open>coverImage\<close> is a non-empty array.
\<close>

definition coverImageLocalPath_of :: "files option \<Rightarrow> string option" where
  "coverImageLocalPath_of fs =
     (case fs of
        None \<Rightarrow> None
      | Some f \<Rightarrow>
          (case f_coverImage f of
             None \<Rightarrow> None
           | Some [] \<Rightarrow> None
           | Some (x # _) \<Rightarrow> f_path x))"

definition options :: "(string \<times> bool) list" where
  "options = [(''httpOnly'', True), (''secure'', True)]"

text \<open>
  The end of \<^verbatim>\<open>registerUser\<close>, after \<^verbatim>\<open>User.create\<close> has returned \<open>user\<close>: the
  account is read back without its password and refresh token and sent with status 201.
\<close>

definition created_response :: "account list \<Rightarrow> account \<Rightarrow> result" where
  "created_response store' user =
     (case select_minus [''password'', ''refreshToken''] (findById store' (Some (u_id user))) of
        None \<Rightarrow> (Inl (ApiError 500 ''Something went wrong while user registration!''), store')
      | Some createdUser \<Rightarrow>
          (Inr \<lparr> res_status = 201, res_cookie = [], res_clearCookie = [],
                 res_json = ApiResponse 200 (JObj createdUser)
                   ''User registered Successfully!!!'' \<rparr>,
           store'))"

text \<open>\<^verbatim>\<open>coverImage?.url || ""\<close>.\<close>

definition coverImage_url :: "string option \<Rightarrow> string" where
  "coverImage_url coverImage = (case js_or coverImage (Some []) of Some u \<Rightarrow> u | None \<Rightarrow> [])"

definition registerUser :: "env \<Rightarrow> account list \<Rightarrow> request \<Rightarrow> result" where
  "registerUser env store req =
     (let fullName = b_fullName (req_body req);
          email = b_email (req_body req);
          username = b_username (req_body req);
          password = b_password (req_body req)
      in
      if list_ex blank_field [fullName, email, username, password]
      then (Inl (ApiError 400 ''All fields are required''), store)
      else
        (case findOne env store username email of
           Some existedUser \<Rightarrow>
             (Inl (ApiError 409 ''User with email or username already exists''), store)
         | None \<Rightarrow>
             (case avatarLocalPath_of (req_files req) of
                Inl e \<Rightarrow> (Inl e, store)
              | Inr avatarLocalPath \<Rightarrow>
                  (let coverImageLocalPath = coverImageLocalPath_of (req_files req) in
                   if \<not> truthy avatarLocalPath
                   then (Inl (ApiError 400 ''Avatar file is required''), store)
                   else
                     (let avatar = uploadOnCloudinary env avatarLocalPath;
                          coverImage = uploadOnCloudinary env coverImageLocalPath
                      in
                      case avatar of
                        None \<Rightarrow> (Inl (ApiError 400 ''Avatar file is required''), store)
                      | Some avatar_url \<Rightarrow>
                          (case username of
                             None \<Rightarrow>
                               (Inl (TypeError
                                  ''Cannot read properties of undefined (reading 'toLowerCase')''),
                                store)
                           | Some un \<Rightarrow>
                               (case create env store fullName avatar_url
                                       (coverImage_url coverImage) email password (toLowerCase un) of
                                  Inl e \<Rightarrow> (Inl e, store)
                                | Inr (user, store') \<Rightarrow>
                                    created_response store' user)))))))"

subsection \<open>loginUser\<close>

definition loginUser :: "env \<Rightarrow> account list \<Rightarrow> request \<Rightarrow> result" where
  "loginUser env store req =
     (let email = b_email (req_body req);
          username = b_username (req_body req);
          password = b_password (req_body req)
      in
      if \<not> truthy username \<or> \<not> truthy email
      then (Inl (ApiError 400 ''username or email is required''), store)
      else
        (case findOne env store username email of
           None \<Rightarrow> (Inl (ApiError 404 ''User does not exist''), store)
         | Some user \<Rightarrow>
             if \<not> isPasswordCorrect env user password
             then (Inl (ApiError 401 ''Password invalid''), store)
             else
               (case generateAccessAndRefreshTokens env store (u_id user) of
                  (Inl e, store') \<Rightarrow> (Inl e, store')
                | (Inr (accessToken, refreshToken), store') \<Rightarrow>
                    (let loggedInUser =
                           (case select_minus [''password'', ''refreshToken'']
                                   (findById store' (Some (u_id user))) of
                              None \<Rightarrow> JNull | Some d \<Rightarrow> JObj d)
                     in
                     (Inr \<lparr> res_status = 200,
                            res_cookie = [(''accessToken'', JStr accessToken, options),
                                          (''refreshToken'', JStr refreshToken, options)],
                            res_clearCookie = [],
                            res_json = ApiResponse 200
                              (JObj [(''user'', loggedInUser),
                                     (''accessToken'', JStr accessToken),
                                     (''refreshToken'', JStr refreshToken)])
                              ''User logged In Successfully'' \<rparr>,
                      store')))))"

subsection \<open>logoutUser\<close>

text \<open>
  \<^verbatim>\<open>req.user\<close> is set by the authentication middleware in front of the handler;
  without it, reading \<^verbatim>\<open>req.user._id\<close> throws.
\<close>

definition logoutUser :: "account list \<Rightarrow> request \<Rightarrow> result" where
  "logoutUser store req =
     (case req_user req of
        None \<Rightarrow> (Inl (TypeError ''Cannot read properties of undefined (reading '_id')''), store)
      | Some user \<Rightarrow>
          (Inr \<lparr> res_status = 200, res_cookie = [],
                 res_clearCookie = [(''accessToken'', options), (''refreshToken'', options)],
                 res_json = ApiResponse 200 (JObj []) ''User logged Out'' \<rparr>,
           findByIdAndUpdate_unset_refreshToken store (u_id user)))"

subsection \<open>refreshAccessToken\<close>

text \<open>\<^verbatim>\<open>error?.message || "Invalid refresh token"\<close> in the \<^verbatim>\<open>catch\<close> block.\<close>

definition catch_message :: "string \<Rightarrow> string" where
  "catch_message m = (if m = [] then ''Invalid refresh token'' else m)"

text \<open>\<^verbatim>\<open>req.cookies.refreshToken || req.body.refreshToken\<close>.\<close>

definition incomingRefreshToken_of :: "request \<Rightarrow> string option" where
  "incomingRefreshToken_of req =
     js_or (c_refreshToken (req_cookies req)) (b_refreshToken (req_body req))"

text \<open>
  \<^verbatim>\<open>!incomingRefreshToken != user?.refreshToken\<close>: the negation binds first, so a
  boolean is compared loosely with the stored token, which is a string or \<^verbatim>\<open>undefined\<close>.
  The comparison is reached only when the guard above it did not fire, that is with a
  falsy token, so the boolean is \<^verbatim>\<open>true\<close>; \<^verbatim>\<open>true != undefined\<close> holds.
\<close>

definition token_check_fails :: "env \<Rightarrow> string option \<Rightarrow> bool" where
  "token_check_fails env stored =
     (case stored of None \<Rightarrow> True | Some s \<Rightarrow> \<not> looseEqTrue env s)"

definition refresh_options :: "(string \<times> bool) list" where
  "refresh_options = [(''httpsOnly'', True), (''secure'', True)]"

definition refreshAccessToken :: "env \<Rightarrow> account list \<Rightarrow> request \<Rightarrow> result" where
  "refreshAccessToken env store req =
     (let incomingRefreshToken = incomingRefreshToken_of req in
      if truthy incomingRefreshToken
      then (Inl (ApiError 401 ''Unauthorized request''), store)
      else
        (case jwt_verify env incomingRefreshToken of
           Inl m \<Rightarrow> (Inl (ApiError 401 (catch_message m)), store)
         | Inr decoded_id \<Rightarrow>
             (case findById store decoded_id of
                None \<Rightarrow> (Inl (ApiError 401 (catch_message ''Invalid refresh token'')), store)
              | Some user \<Rightarrow>
                  if token_check_fails env (u_refreshToken user)
                  then (Inl (ApiError 401 (catch_message ''Refresh token is expired or used'')),
                        store)
                  else
                    (case generateAccessAndRefreshTokens env store (u_id user) of
                       (Inl e, store') \<Rightarrow>
                         (Inl (ApiError 401
                            (catch_message
                               (case e of ApiError _ m \<Rightarrow> m | TypeError m \<Rightarrow> m
                                | StoreError m \<Rightarrow> m))),
                          store')
                     | (Inr (accessToken, refreshToken), store') \<Rightarrow>
                         (Inr \<lparr> res_status = 200,
                                res_cookie = [(''accessToken'', JStr accessToken, refresh_options),
                                              (''refreshToken'', JUndefined, refresh_options)],
                                res_clearCookie = [],
                                res_json = ApiResponse 200
                                  (JObj [(''accessToken'', JStr accessToken),
                                         (''refreshToken'', JUndefined)])
                                  ''Access token refreshed'' \<rparr>,
                          store')))))"

section \<open>Example data\<close>

text \<open>
  One environment, one stored account and a few requests, on which the theorems below are
  instantiated. The registration request is the example scenario of the specification.
  The environment is one instance among many: its lookup lowercases the queried username,
  and its \<open>looseEqTrue\<close> knows the numeral \<open>1\<close> between white space only.
\<close>

definition example_env :: env where
  "example_env =
     \<lparr> uploadOnCloudinary = (\<lambda>p. case p of None \<Rightarrow> None | Some l \<Rightarrow> Some (''https://media/'' @ l)),
       hashPassword = (\<lambda>p. ''hash:'' @ p),
       generateAccessToken = (\<lambda>a. ''access-'' @ u_username a),
       generateRefreshToken = (\<lambda>a. ''refresh-'' @ u_username a),
       isPasswordCorrect = (\<lambda>a p. p = Some (drop 5 (u_password a))),
       jwt_verify = (\<lambda>t. if t = Some ''refresh-ab1'' then Inr (Some 1) else Inl ''invalid signature''),
       looseEqTrue = (\<lambda>s. trim s = ''1''),
       lookupAlsoMatches = (\<lambda>q s. toLowerCase q = s) \<rparr>"

definition example_account :: account where
  "example_account =
     \<lparr> u_id = 1, u_username = ''ab1'', u_email = ''a@b.com'', u_fullName = ''A B'',
       u_password = ''hash:pw123456'', u_avatar = ''https://media/a.png'', u_coverImage = [],
       u_refreshToken = Some ''refresh-ab1'' \<rparr>"

definition empty_body :: body where
  "empty_body = \<lparr> b_fullName = None, b_email = None, b_username = None, b_password = None,
                  b_refreshToken = None \<rparr>"

definition empty_request :: request where
  "empty_request = \<lparr> req_body = empty_body, req_files = None,
                     req_cookies = \<lparr> c_refreshToken = None \<rparr>, req_user = None \<rparr>"

definition example_register_request :: request where
  "example_register_request =
     empty_request
       \<lparr> req_body := empty_body \<lparr> b_fullName := Some ''A B'', b_email := Some ''a@b.com'',
                                  b_username := Some ''ab1'', b_password := Some ''pw123456'' \<rparr>,
         req_files := Some \<lparr> f_avatar = Some [\<lparr> f_path = Some ''a.png'' \<rparr>],
                              f_coverImage = None \<rparr> \<rparr>"


definition example_refresh_request :: request where
  "example_refresh_request =
     empty_request \<lparr> req_cookies := \<lparr> c_refreshToken = Some ''refresh-ab1'' \<rparr> \<rparr>"

definition example_blank_request :: request where
  "example_blank_request =
     example_register_request
       \<lparr> req_body := (req_body example_register_request) \<lparr> b_fullName := Some ''  '' \<rparr> \<rparr>"

definition example_absent_request :: request where
  "example_absent_request =
     empty_request \<lparr> req_body := empty_body \<lparr> b_email := Some ''a@b.com'' \<rparr> \<rparr>"

section \<open>Auxiliary facts\<close>

lemmas example_defs =
  example_env_def example_account_def empty_body_def empty_request_def
  example_register_request_def

lemmas handler_defs =
  registerUser_def blank_field_def trim_def is_white_space_def findOne_def username_matches_def
  avatarLocalPath_of_def coverImageLocalPath_of_def truthy_def create_def
  created_response_def toLowerCase_def toLowerCase_char_def coverImage_url_def js_or_def
  fresh_id_def findById_def select_minus_def toObject_def Let_def

lemma dropWhile_all_iff: "(\<forall>c \<in> set (dropWhile P s). P c) = (\<forall>c \<in> set s. P c)"
proof
  assume a: "\<forall>c \<in> set (dropWhile P s). P c"
  have "dropWhile P s = []"
  proof (rule ccontr)
    assume ne: "dropWhile P s \<noteq> []"
    then have "\<not> P (hd (dropWhile P s))" by (rule hd_dropWhile)
    moreover from ne have "hd (dropWhile P s) \<in> set (dropWhile P s)" by simp
    ultimately show False using a by blast
  qed
  then show "\<forall>c \<in> set s. P c" by (simp add: dropWhile_eq_Nil_conv)
next
  assume "\<forall>c \<in> set s. P c"
  then show "\<forall>c \<in> set (dropWhile P s). P c" by (meson set_dropWhileD)
qed

lemma trim_empty_iff: "(trim s = []) = (\<forall>c \<in> set s. is_white_space c)"
proof -
  have "(trim s = []) = (\<forall>c \<in> set (rev (dropWhile is_white_space s)). is_white_space c)"
    by (simp add: trim_def dropWhile_eq_Nil_conv)
  also have "\<dots> = (\<forall>c \<in> set s. is_white_space c)"
    by (simp add: dropWhile_all_iff)
  finally show ?thesis .
qed

lemma fold_max_ge_init: "(m::nat) \<le> fold max xs m"
  by (induction xs arbitrary: m) (auto intro: order_trans [OF max.cobounded2])

lemma fold_max_ge_elem: "(x::nat) \<in> set xs \<Longrightarrow> x \<le> fold max xs m"
proof (induction xs arbitrary: m)
  case Nil
  then show ?case by simp
next
  case (Cons y ys)
  show ?case
  proof (cases "x = y")
    case True
    have "x \<le> max y m" using True by simp
    also have "\<dots> \<le> fold max ys (max y m)" by (rule fold_max_ge_init)
    finally show ?thesis by simp
  next
    case False
    with Cons.prems have "x \<in> set ys" by simp
    then show ?thesis using Cons.IH by simp
  qed
qed

lemma fresh_id_not_stored: "a \<in> set store \<Longrightarrow> u_id a \<noteq> fresh_id store"
proof -
  assume "a \<in> set store"
  then have "u_id a \<in> set (map u_id store)" by simp
  then have "u_id a \<le> fold max (map u_id store) 0" by (rule fold_max_ge_elem)
  then show ?thesis by (simp add: fresh_id_def)
qed

lemma find_append_fresh:
  "\<forall>a \<in> set xs. \<not> P a \<Longrightarrow> P x \<Longrightarrow> find P (xs @ [x]) = Some x"
  by (induction xs) auto

lemma findById_created:
  "u_id user = fresh_id store \<Longrightarrow> findById (store @ [user]) (Some (u_id user)) = Some user"
  unfolding findById_def
  by (rule find_append_fresh) (auto dest: fresh_id_not_stored)

lemma create_Inr:
  assumes "create env store fullName avatar coverImage email password username = Inr (user, store')"
  shows "store' = store @ [user] \<and> u_id user = fresh_id store \<and> u_username user = username
         \<and> u_refreshToken user = None"
  using assms
  by (auto simp: create_def Let_def split: option.splits if_splits)

lemma create_not_ApiError:
  "create env store fullName avatar coverImage email password username \<noteq> Inl (ApiError n m)"
  by (auto simp: create_def Let_def split: option.splits if_splits)

lemma created_response_fresh:
  assumes "u_id user = fresh_id store"
  shows "created_response (store @ [user]) user =
           (Inr \<lparr> res_status = 201, res_cookie = [], res_clearCookie = [],
                  res_json = ApiResponse 200
                    (JObj (filter (\<lambda>kv. fst kv \<notin> set [''password'', ''refreshToken''])
                             (toObject user)))
                    ''User registered Successfully!!!'' \<rparr>,
            store @ [user])"
  using findById_created [OF assms]
  by (simp add: created_response_def select_minus_def)

lemma created_response_store: "created_response s u = (r, s') \<Longrightarrow> s' = s"
  by (auto simp: created_response_def split: option.splits)

lemma registerUser_Inr:
  assumes "registerUser env store req = (Inr res, store')"
  shows "\<exists>avatar coverImage un user.
           b_username (req_body req) = Some un \<and>
           create env store (b_fullName (req_body req)) avatar coverImage
             (b_email (req_body req)) (b_password (req_body req)) (toLowerCase un)
             = Inr (user, store') \<and>
           created_response store' user = (Inr res, store')"
  using assms
  unfolding registerUser_def Let_def
  by (auto split: if_splits option.splits sum.splits prod.splits
           dest: created_response_store)

lemma sanitized_no_secret_fields:
  "\<not> has_field ''password''
       (JObj (filter (\<lambda>kv. fst kv \<notin> set [''password'', ''refreshToken'']) (toObject a)))
   \<and> \<not> has_field ''refreshToken''
       (JObj (filter (\<lambda>kv. fst kv \<notin> set [''password'', ''refreshToken'']) (toObject a)))"
  by (auto simp: has_field_def)

lemma refreshAccessToken_truthy:
  "truthy (incomingRefreshToken_of req) \<Longrightarrow>
   refreshAccessToken env store req = (Inl (ApiError 401 ''Unauthorized request''), store)"
  by (simp add: refreshAccessToken_def)

lemma blank_field_iff:
  "blank_field field = (\<exists>s. field = Some s \<and> (\<forall>c \<in> set s. is_white_space c))"
  by (cases field) (simp_all add: blank_field_def trim_empty_iff)

lemma registerUser_blank:
  "list_ex blank_field [b_fullName (req_body req), b_email (req_body req),
                        b_username (req_body req), b_password (req_body req)] \<Longrightarrow>
   registerUser env store req = (Inl (ApiError 400 ''All fields are required''), store)"
  by (simp add: registerUser_def Let_def)

lemma findOne_Some:
  assumes "a \<in> set store"
      and "username = Some (u_username a) \<or> email = Some (u_email a)"
  shows "\<exists>existedUser. findOne env store username email = Some existedUser"
proof -
  from assms(2) have "username_matches env username a \<or> email = Some (u_email a)"
    by (auto simp: username_matches_def)
  with assms(1) have "findOne env store username email \<noteq> None"
    unfolding findOne_def find_None_iff by blast
  then show ?thesis by blast
qed

lemma find_map_update:
  "find (\<lambda>a. u_id a = i) (map (\<lambda>a. if u_id a = i then a\<lparr> u_refreshToken := None \<rparr> else a) xs)
   = map_option (\<lambda>a. a\<lparr> u_refreshToken := None \<rparr>) (find (\<lambda>a. u_id a = i) xs)"
  by (induction xs) auto

lemma findById_after_unset:
  "findById (findByIdAndUpdate_unset_refreshToken store i) (Some i)
   = map_option (\<lambda>a. a\<lparr> u_refreshToken := None \<rparr>) (findById store (Some i))"
  using find_map_update [of i store]
  by (simp add: findById_def findByIdAndUpdate_unset_refreshToken_def eq_commute)

lemma list_ex_blank_iff:
  "list_ex blank_field fs = (\<exists>field \<in> set fs. \<exists>s. field = Some s \<and> trim s = [])"
  unfolding list_ex_iff
  by (auto simp: blank_field_def split: option.splits)

lemma avatarLocalPath_of_not_ApiError: "avatarLocalPath_of fs \<noteq> Inl (ApiError n m)"
  by (simp add: avatarLocalPath_of_def split: option.splits list.splits)

lemma registerUser_not_blank_error:
  assumes "\<not> list_ex blank_field [b_fullName (req_body req), b_email (req_body req),
                                   b_username (req_body req), b_password (req_body req)]"
  shows "fst (registerUser env store req) \<noteq> Inl (ApiError 400 ''All fields are required'')"
proof -
  have cr: "\<And>s u. fst (created_response s u) \<noteq> Inl (ApiError 400 ''All fields are required'')"
    by (simp add: created_response_def split: option.splits)
  show ?thesis
    using assms cr
    unfolding registerUser_def Let_def
    by (auto split: option.splits sum.splits prod.splits
             simp: create_not_ApiError avatarLocalPath_of_not_ApiError)
qed

lemma registerUser_not_blank_conflict:
  assumes "\<not> list_ex blank_field [b_fullName (req_body req), b_email (req_body req),
                                   b_username (req_body req), b_password (req_body req)]"
      and "findOne env store (b_username (req_body req)) (b_email (req_body req)) = Some a"
  shows "registerUser env store req
         = (Inl (ApiError 409 ''User with email or username already exists''), store)"
  using assms by (simp add: registerUser_def Let_def)

section \<open>Registration\<close>

text \<open>
  C4. Whenever \<open>registerUser\<close> answers with a response, the store has grown by exactly
  the created account, whose username is the lowercased submitted one, the status is 201,
  and the data of the response body is the document of that account without its
  \<open>password\<close> and \<open>refreshToken\<close> fields: neither field occurs in it.
\<close>

theorem registerUser_response_sanitized:
  assumes "registerUser env store req = (Inr res, store')"
  shows "\<exists>user un. b_username (req_body req) = Some un \<and> u_username user = toLowerCase un
           \<and> store' = store @ [user] \<and> res_status res = 201
           \<and> res_data res =
               JObj (filter (\<lambda>kv. fst kv \<notin> set [''password'', ''refreshToken''])
                       (toObject user))
           \<and> \<not> has_field ''password'' (res_data res)
           \<and> \<not> has_field ''refreshToken'' (res_data res)"
proof -
  from registerUser_Inr [OF assms] obtain avatar coverImage un user where
    un: "b_username (req_body req) = Some un" and
    cr: "create env store (b_fullName (req_body req)) avatar coverImage
           (b_email (req_body req)) (b_password (req_body req)) (toLowerCase un)
           = Inr (user, store')" and
    resp: "created_response store' user = (Inr res, store')"
    by blast
  from create_Inr [OF cr] have st: "store' = store @ [user]" and
    fresh: "u_id user = fresh_id store" and name: "u_username user = toLowerCase un"
    by simp_all
  from resp created_response_fresh [OF fresh] st
  have res: "res = \<lparr> res_status = 201, res_cookie = [], res_clearCookie = [],
                  res_json = ApiResponse 200
                    (JObj (filter (\<lambda>kv. fst kv \<notin> set [''password'', ''refreshToken''])
                             (toObject user)))
                    ''User registered Successfully!!!'' \<rparr>"
    by simp
  then have data: "res_data res =
      JObj (filter (\<lambda>kv. fst kv \<notin> set [''password'', ''refreshToken'']) (toObject user))"
    by (simp add: res_data_def)
  have "res_status res = 201" using res by simp
  with un name st data sanitized_no_secret_fields [of user] show ?thesis
    by (intro exI [of _ user] exI [of _ un]) simp
qed

theorem registerUser_response_sanitized_witness:
  "\<exists>res store'. registerUser example_env [] example_register_request = (Inr res, store')
     \<and> res_status res = 201
     \<and> \<not> has_field ''password'' (res_data res)
     \<and> \<not> has_field ''refreshToken'' (res_data res)"
proof -
  have "\<exists>res store'. registerUser example_env [] example_register_request = (Inr res, store')"
    by (simp add: example_defs handler_defs)
  then obtain res store' where
    ev: "registerUser example_env [] example_register_request = (Inr res, store')"
    by blast
  from registerUser_response_sanitized [OF ev] ev show ?thesis by blast
qed

text \<open>
  C5. A registration request in which one of \<open>fullName\<close>, \<open>email\<close>, \<open>username\<close>,
  \<open>password\<close> is present and consists of white space only (the empty string included)
  is rejected with the 400 error, and the store is left as it was.
\<close>

theorem registerUser_blank_field_rejected:
  assumes "field \<in> set [b_fullName (req_body req), b_email (req_body req),
                         b_username (req_body req), b_password (req_body req)]"
      and "field = Some s" and "\<forall>c \<in> set s. is_white_space c"
  shows "registerUser env store req = (Inl (ApiError 400 ''All fields are required''), store)"
proof -
  from assms(2,3) have "blank_field field" by (auto simp: blank_field_iff)
  with assms(1) have "list_ex blank_field [b_fullName (req_body req), b_email (req_body req),
                        b_username (req_body req), b_password (req_body req)]"
    unfolding list_ex_iff by blast
  then show ?thesis by (rule registerUser_blank)
qed

theorem registerUser_blank_field_rejected_witness:
  "b_fullName (req_body example_blank_request) = Some ''  ''
   \<and> list_all is_white_space ''  ''
   \<and> registerUser example_env [] example_blank_request
      = (Inl (ApiError 400 ''All fields are required''), [])"
proof -
  have ws: "\<forall>c \<in> set ''  ''. is_white_space c" by (simp add: is_white_space_def)
  have val: "b_fullName (req_body example_blank_request) = Some ''  ''"
    by (simp add: example_blank_request_def)
  have mem: "b_fullName (req_body example_blank_request)
               \<in> set [b_fullName (req_body example_blank_request),
                      b_email (req_body example_blank_request),
                      b_username (req_body example_blank_request),
                      b_password (req_body example_blank_request)]"
    by simp
  from registerUser_blank_field_rejected [OF mem val ws, of example_env "[]"] ws val
  show ?thesis by (simp add: list_all_iff)
qed

text \<open>
  C6, as stated, fails: a request whose username is that of a stored account and whose
  password is the empty string is rejected by the non-blank validation, which runs first,
  with status 400 and not 409.
\<close>

theorem registerUser_duplicate_with_blank_field_counterexample:
  "b_username (req_body (example_register_request
       \<lparr> req_body := (req_body example_register_request) \<lparr> b_password := Some [] \<rparr> \<rparr>))
     = Some (u_username example_account)
   \<and> registerUser example_env [example_account]
        (example_register_request
           \<lparr> req_body := (req_body example_register_request) \<lparr> b_password := Some [] \<rparr> \<rparr>)
      = (Inl (ApiError 400 ''All fields are required''), [example_account])"
  by (simp add: example_defs handler_defs)

text \<open>
  C6, amended. A registration request with no blank required field, whose username or
  email is that of a stored account, is rejected with the 409 error, and the store is left
  as it was: no second account with that username or email is created.
\<close>

theorem registerUser_duplicate_rejected:
  assumes "\<not> list_ex blank_field [b_fullName (req_body req), b_email (req_body req),
                                   b_username (req_body req), b_password (req_body req)]"
      and "a \<in> set store"
      and "b_username (req_body req) = Some (u_username a)
           \<or> b_email (req_body req) = Some (u_email a)"
  shows "registerUser env store req
         = (Inl (ApiError 409 ''User with email or username already exists''), store)"
proof -
  from findOne_Some [OF assms(2,3)] obtain existedUser where
    "findOne env store (b_username (req_body req)) (b_email (req_body req)) = Some existedUser"
    by blast
  with assms(1) show ?thesis by (simp add: registerUser_def Let_def)
qed

theorem registerUser_duplicate_rejected_witness:
  "\<not> list_ex blank_field [b_fullName (req_body example_register_request),
                          b_email (req_body example_register_request),
                          b_username (req_body example_register_request),
                          b_password (req_body example_register_request)]
   \<and> example_account \<in> set [example_account]
   \<and> b_username (req_body example_register_request) = Some (u_username example_account)
   \<and> registerUser example_env [example_account] example_register_request
       = (Inl (ApiError 409 ''User with email or username already exists''), [example_account])"
proof -
  have nb: "\<not> list_ex blank_field [b_fullName (req_body example_register_request),
                          b_email (req_body example_register_request),
                          b_username (req_body example_register_request),
                          b_password (req_body example_register_request)]"
    by (simp add: example_defs blank_field_def trim_def is_white_space_def)
  have mem: "example_account \<in> set [example_account]" by simp
  have dup: "b_username (req_body example_register_request) = Some (u_username example_account)
             \<or> b_email (req_body example_register_request) = Some (u_email example_account)"
    by (simp add: example_defs)
  from registerUser_duplicate_rejected [OF nb mem dup, of example_env] nb
  show ?thesis by (simp add: example_defs)
qed

text \<open>
  C7, as stated, fails: a request without files whose username and email are those of a
  stored account is rejected by the duplicate check, which runs before the avatar check,
  with status 409 and not 400.
\<close>

theorem registerUser_duplicate_without_avatar_counterexample:
  "req_files (example_register_request \<lparr> req_files := None \<rparr>) = None
   \<and> registerUser example_env [example_account] (example_register_request \<lparr> req_files := None \<rparr>)
      = (Inl (ApiError 409 ''User with email or username already exists''), [example_account])"
  by (simp add: example_defs handler_defs)

text \<open>
  A files object that has no \<open>avatar\<close> entry (a multipart request with a cover image
  only, or with no file at all) does not reach the avatar check: the index expression
  throws a \<open>TypeError\<close>, where the sibling computation of the cover image path tests
  for the array first.
\<close>

lemma registerUser_files_without_avatar_throws:
  assumes "\<not> list_ex blank_field [b_fullName (req_body req), b_email (req_body req),
                                   b_username (req_body req), b_password (req_body req)]"
      and "findOne env store (b_username (req_body req)) (b_email (req_body req)) = None"
      and "req_files req = Some f" and "f_avatar f = None"
  shows "registerUser env store req
         = (Inl (TypeError ''Cannot read properties of undefined (reading '0')''), store)"
  using assms
  by (simp add: registerUser_def Let_def avatarLocalPath_of_def)

text \<open>
  C7, amended. A registration request for which the duplicate lookup finds no account, and
  which has no files object or an empty \<open>avatar\<close> array, is rejected with a 400 error,
  and the store is left as it was.
\<close>

theorem registerUser_missing_avatar_rejected:
  assumes "findOne env store (b_username (req_body req)) (b_email (req_body req)) = None"
      and "req_files req = None \<or> (\<exists>f. req_files req = Some f \<and> f_avatar f = Some [])"
  shows "\<exists>m. registerUser env store req = (Inl (ApiError 400 m), store)"
proof (cases "list_ex blank_field [b_fullName (req_body req), b_email (req_body req),
                                   b_username (req_body req), b_password (req_body req)]")
  case True
  then show ?thesis using registerUser_blank by blast
next
  case False
  from assms(2) have "avatarLocalPath_of (req_files req) = Inr None"
    by (auto simp: avatarLocalPath_of_def)
  with False assms(1) show ?thesis
    by (simp add: registerUser_def Let_def truthy_def)
qed

theorem registerUser_missing_avatar_rejected_witness:
  "findOne example_env [] (b_username (req_body (example_register_request \<lparr> req_files := None \<rparr>)))
     (b_email (req_body (example_register_request \<lparr> req_files := None \<rparr>))) = None
   \<and> req_files (example_register_request \<lparr> req_files := None \<rparr>) = None
   \<and> registerUser example_env [] (example_register_request \<lparr> req_files := None \<rparr>)
      = (Inl (ApiError 400 ''Avatar file is required''), [])"
proof -
  have nodup: "findOne example_env [] (b_username (req_body (example_register_request \<lparr> req_files := None \<rparr>)))
     (b_email (req_body (example_register_request \<lparr> req_files := None \<rparr>))) = None"
    by (simp add: findOne_def)
  have nofiles: "req_files (example_register_request \<lparr> req_files := None \<rparr>) = None
     \<or> (\<exists>f. req_files (example_register_request \<lparr> req_files := None \<rparr>) = Some f
            \<and> f_avatar f = Some [])"
    by simp
  from registerUser_missing_avatar_rejected [OF nodup nofiles]
  obtain m where m: "registerUser example_env [] (example_register_request \<lparr> req_files := None \<rparr>)
      = (Inl (ApiError 400 m), [])" by blast
  moreover have "registerUser example_env [] (example_register_request \<lparr> req_files := None \<rparr>)
      = (Inl (ApiError 400 ''Avatar file is required''), [])"
    by (simp add: example_defs handler_defs)
  ultimately show ?thesis using nodup by simp
qed

text \<open>
  C9. \<open>registerUser\<close> raises the 400 error ``All fields are required'' exactly when one
  of the four fields is present and trims to the empty string. A request that has no such
  field, absent fields included, is past the validation: when the duplicate lookup finds
  an account, the answer is the 409 error.
\<close>

theorem registerUser_absent_fields_pass_validation:
  "((fst (registerUser env store req) = Inl (ApiError 400 ''All fields are required''))
      = (\<exists>field \<in> set [b_fullName (req_body req), b_email (req_body req),
                        b_username (req_body req), b_password (req_body req)].
           \<exists>s. field = Some s \<and> trim s = []))
   \<and> (\<not> (\<exists>field \<in> set [b_fullName (req_body req), b_email (req_body req),
                          b_username (req_body req), b_password (req_body req)].
             \<exists>s. field = Some s \<and> trim s = [])
        \<and> findOne env store (b_username (req_body req)) (b_email (req_body req)) \<noteq> None
      \<longrightarrow> registerUser env store req
            = (Inl (ApiError 409 ''User with email or username already exists''), store))"
proof -
  let ?fields = "[b_fullName (req_body req), b_email (req_body req),
                  b_username (req_body req), b_password (req_body req)]"
  show ?thesis
  proof (cases "list_ex blank_field ?fields")
    case True
    then have "fst (registerUser env store req) = Inl (ApiError 400 ''All fields are required'')"
      by (simp add: registerUser_blank)
    with True show ?thesis unfolding list_ex_blank_iff by blast
  next
    case False
    note neq = registerUser_not_blank_error [OF False, of env store]
    have "findOne env store (b_username (req_body req)) (b_email (req_body req)) \<noteq> None
          \<longrightarrow> registerUser env store req
              = (Inl (ApiError 409 ''User with email or username already exists''), store)"
      using registerUser_not_blank_conflict [OF False] by blast
    with False neq show ?thesis unfolding list_ex_blank_iff by blast
  qed
qed

theorem registerUser_absent_fields_pass_validation_witness:
  "b_fullName (req_body example_absent_request) = None
   \<and> b_username (req_body example_absent_request) = None
   \<and> b_password (req_body example_absent_request) = None
   \<and> findOne example_env [example_account] (b_username (req_body example_absent_request))
        (b_email (req_body example_absent_request)) \<noteq> None
   \<and> fst (registerUser example_env [example_account] example_absent_request)
       \<noteq> Inl (ApiError 400 ''All fields are required'')
   \<and> registerUser example_env [example_account] example_absent_request
       = (Inl (ApiError 409 ''User with email or username already exists''), [example_account])"
proof -
  have nb: "\<not> (\<exists>field \<in> set [b_fullName (req_body example_absent_request),
                               b_email (req_body example_absent_request),
                               b_username (req_body example_absent_request),
                               b_password (req_body example_absent_request)].
                 \<exists>s. field = Some s \<and> trim s = [])"
    by (simp add: example_absent_request_def example_defs trim_def is_white_space_def)
  have found: "findOne example_env [example_account] (b_username (req_body example_absent_request))
        (b_email (req_body example_absent_request)) \<noteq> None"
    by (simp add: example_absent_request_def example_defs findOne_def username_matches_def)
  have absent: "b_fullName (req_body example_absent_request) = None
                \<and> b_username (req_body example_absent_request) = None
                \<and> b_password (req_body example_absent_request) = None"
    by (simp add: example_absent_request_def empty_body_def)
  from registerUser_absent_fields_pass_validation
         [of example_env "[example_account]" example_absent_request] nb found
  have "fst (registerUser example_env [example_account] example_absent_request)
          \<noteq> Inl (ApiError 400 ''All fields are required'')
        \<and> registerUser example_env [example_account] example_absent_request
          = (Inl (ApiError 409 ''User with email or username already exists''),
             [example_account])"
    by blast
  with absent found show ?thesis by blast
qed

section \<open>Login\<close>

text \<open>
  C2. The presence check of \<open>loginUser\<close> rejects a request that carries a username and
  no email: the guard is \<^verbatim>\<open>!username || !email\<close>, so one identifier alone does not pass
  it, although the error message and the comment above the guard ask for one of the two.
\<close>

theorem loginUser_username_only_rejected:
  "loginUser env store
     (empty_request \<lparr> req_body := empty_body \<lparr> b_username := Some ''ab1'',
                                                b_password := Some ''pw123456'' \<rparr> \<rparr>)
   = (Inl (ApiError 400 ''username or email is required''), store)"
  by (simp add: loginUser_def truthy_def example_defs)

theorem loginUser_username_only_rejected_witness:
  "loginUser example_env [example_account]
     (empty_request \<lparr> req_body := empty_body \<lparr> b_username := Some ''ab1'',
                                                b_password := Some ''pw123456'' \<rparr> \<rparr>)
   = (Inl (ApiError 400 ''username or email is required''), [example_account])"
  using loginUser_username_only_rejected [of example_env "[example_account]"] by simp

section \<open>Token refresh\<close>

text \<open>
  C1. A request whose cookie carries the refresh token stored on the account, and for which
  the verifier returns the id of that account, is rejected by \<open>refreshAccessToken\<close> with
  the 401 error of its first guard, \<^verbatim>\<open>if (incomingRefreshToken)\<close>; no token is issued
  and the stored token is not replaced.
\<close>

theorem refreshAccessToken_valid_token_rejected:
  "c_refreshToken (req_cookies example_refresh_request) = u_refreshToken example_account
   \<and> jwt_verify example_env (u_refreshToken example_account) = Inr (Some (u_id example_account))
   \<and> refreshAccessToken example_env [example_account] example_refresh_request
       = (Inl (ApiError 401 ''Unauthorized request''), [example_account])"
  by (simp add: refreshAccessToken_truthy incomingRefreshToken_of_def js_or_def truthy_def
        example_refresh_request_def example_defs)

theorem refreshAccessToken_valid_token_rejected_witness:
  "fst (refreshAccessToken example_env [example_account] example_refresh_request)
     = Inl (ApiError 401 ''Unauthorized request'')
   \<and> snd (refreshAccessToken example_env [example_account] example_refresh_request)
     = [example_account]"
  using refreshAccessToken_valid_token_rejected by simp

text \<open>
  C3. Every request that presents a refresh token, in the cookie or in the body, is
  rejected by \<open>refreshAccessToken\<close> with a 401 error and leaves the store unchanged,
  whatever account the payload of the token names and whatever token is stored there; in
  particular when the presented token differs from the stored one.
\<close>

theorem refreshAccessToken_presented_token_rejected:
  assumes "incomingRefreshToken_of req = Some t" and "t \<noteq> []"
  shows "refreshAccessToken env store req = (Inl (ApiError 401 ''Unauthorized request''), store)"
  using assms by (simp add: refreshAccessToken_truthy truthy_def)

theorem refreshAccessToken_presented_token_rejected_witness:
  "incomingRefreshToken_of
     (empty_request \<lparr> req_body := empty_body \<lparr> b_refreshToken := Some ''refresh-old'' \<rparr> \<rparr>)
     = Some ''refresh-old''
   \<and> u_refreshToken example_account \<noteq> Some ''refresh-old''
   \<and> refreshAccessToken example_env [example_account]
       (empty_request \<lparr> req_body := empty_body \<lparr> b_refreshToken := Some ''refresh-old'' \<rparr> \<rparr>)
       = (Inl (ApiError 401 ''Unauthorized request''), [example_account])"
proof -
  have h: "incomingRefreshToken_of
     (empty_request \<lparr> req_body := empty_body \<lparr> b_refreshToken := Some ''refresh-old'' \<rparr> \<rparr>)
     = Some ''refresh-old''"
    by (simp add: incomingRefreshToken_of_def js_or_def truthy_def example_defs)
  from refreshAccessToken_presented_token_rejected [OF h, of example_env "[example_account]"] h
  show ?thesis by (simp add: example_account_def)
qed

section \<open>Logout\<close>

text \<open>
  C8. For a logout request on which the authentication middleware has set the acting
  account, \<open>logoutUser\<close> answers with status 200, clears the \<open>accessToken\<close> and
  \<open>refreshToken\<close> cookies and sets none; afterwards every stored account with the id of
  the acting account has no refresh token, looking the account up by id gives the account
  it gave before with the refresh token removed, and accounts with another id are
  untouched.
\<close>

theorem logoutUser_clears_refreshToken:
  assumes "req_user req = Some user"
  shows "\<exists>res store'. logoutUser store req = (Inr res, store')
           \<and> res_status res = 200
           \<and> map fst (res_clearCookie res) = [''accessToken'', ''refreshToken'']
           \<and> res_cookie res = []
           \<and> findById store' (Some (u_id user))
               = map_option (\<lambda>a. a\<lparr> u_refreshToken := None \<rparr>) (findById store (Some (u_id user)))
           \<and> (\<forall>a \<in> set store'. u_id a = u_id user \<longrightarrow> u_refreshToken a = None)
           \<and> (\<forall>a \<in> set store'. u_id a \<noteq> u_id user \<longrightarrow> a \<in> set store)"
proof -
  let ?store' = "findByIdAndUpdate_unset_refreshToken store (u_id user)"
  have run: "logoutUser store req =
    (Inr \<lparr> res_status = 200, res_cookie = [],
           res_clearCookie = [(''accessToken'', options), (''refreshToken'', options)],
           res_json = ApiResponse 200 (JObj []) ''User logged Out'' \<rparr>, ?store')"
    using assms by (simp add: logoutUser_def)
  have cleared: "\<forall>a \<in> set ?store'. u_id a = u_id user \<longrightarrow> u_refreshToken a = None"
    by (auto simp: findByIdAndUpdate_unset_refreshToken_def)
  have others: "\<forall>a \<in> set ?store'. u_id a \<noteq> u_id user \<longrightarrow> a \<in> set store"
    by (auto simp: findByIdAndUpdate_unset_refreshToken_def split: if_splits)
  show ?thesis
    using run cleared others findById_after_unset [of store "u_id user"] by simp
qed

theorem logoutUser_clears_refreshToken_witness:
  "req_user (empty_request \<lparr> req_user := Some example_account \<rparr>) = Some example_account
   \<and> u_refreshToken example_account \<noteq> None
   \<and> (\<exists>res store'. logoutUser [example_account] (empty_request \<lparr> req_user := Some example_account \<rparr>)
                      = (Inr res, store')
         \<and> res_status res = 200
         \<and> map fst (res_clearCookie res) = [''accessToken'', ''refreshToken'']
         \<and> findById store' (Some (u_id example_account))
              = Some (example_account \<lparr> u_refreshToken := None \<rparr>))"
proof -
  have h: "req_user (empty_request \<lparr> req_user := Some example_account \<rparr>) = Some example_account"
    by simp
  have f: "findById [example_account] (Some (u_id example_account)) = Some example_account"
    by (simp add: findById_def)
  from logoutUser_clears_refreshToken [OF h, of "[example_account]"] f h
  show ?thesis by (auto simp: example_account_def)
qed

end
